theory Spec2Isabelle
  imports Complex_Main
begin

section \<open>Data model of the transport engine\<close>

text \<open>
  The development embeds \<^verbatim>\<open>openpnm/algorithms/GenericTransport.py\<close>.
  A float64 number is modelled by an exact \<^typ>\<open>real\<close>; rounding and the infinities
  are not modelled. An entry of a boundary-condition array is a \<^typ>\<open>real option\<close>:
  \<open>None\<close> is the not-a-number sentinel that the source uses for "unset"
  (\<^verbatim>\<open>np.nan\<close>), \<open>Some x\<close> a finite number. Node and edge indices are natural
  numbers (the data model has indices in \<open>[0, N)\<close>; Python's negative indices
  are not modelled). A scalar argument of the source is the one-element list,
  which numpy broadcasts in the same way.
\<close>

type_synonym fl = "real option"

datatype error =
    ValuesMismatch    \<comment> \<open>'The number of boundary values must match the number of locations'\<close>
  | IndexError        \<comment> \<open>numpy: index out of bounds\<close>
  | BroadcastError    \<comment> \<open>numpy: shape mismatch / operands could not be broadcast\<close>
  | KeyError          \<comment> \<open>a missing dictionary key (conductance, quantity)\<close>
  | AxisError         \<comment> \<open>numpy: axis 1 is out of bounds for an array of dimension 1\<close>
  | DimensionMismatch \<comment> \<open>scipy: dimension mismatch in a matrix-vector product\<close>
  | CGNotSymmetric    \<comment> \<open>'CG solver only works on symmetric matrices.'\<close>
  | DidNotConverge int  \<comment> \<open>'Solver did not converge, exit code: ...'\<close>
  | AttributeError    \<comment> \<open>getattr(scipy.sparse.linalg, solver_type) fails\<close>
  | PETScMissing      \<comment> \<open>'PETSc is not installed.'\<close>
  | PyAMGMissing      \<comment> \<open>'PyAMG is not installed.'\<close>
  | UnboundLocalError \<comment> \<open>no solver family matched: \<^verbatim>\<open>x\<close> is never assigned\<close>
  | BothGiven         \<comment> \<open>'Must specify either pores or throats, not both'\<close>
  | NeitherGiven      \<comment> \<open>'Must specify either pores or throats'\<close>

datatype bctype = Value | Rate

datatype mode = Merge | Overwrite

datatype rate_mode = Group | Single

text \<open>A sparse matrix in coordinate format: the \<^verbatim>\<open>(row, col, data)\<close> triples in
  storage order; duplicate coordinates are summed when the matrix is read.\<close>

record coo_matrix =
  shape :: nat
  triples :: "(nat \<times> nat \<times> real) list"

text \<open>The conductance array of the phase: one value per throat, or an
  \<open>Nt \<times> 2\<close> array (one value per direction).\<close>

datatype conductance = PerThroat "real list" | TwoColumn "(real \<times> real) list"

record network =
  Np :: nat
  conns :: "(nat \<times> nat) list"

record settings =
  solver_family :: string
  solver_type :: string
  solver_preconditioner :: string
  solver_tol :: real
  solver_atol :: "real option"
  solver_rtol :: "real option"
  solver_maxiter :: nat
  cache_A :: bool
  cache_b :: bool

text \<open>The algorithm object. \<open>priv_A\<close>, \<open>priv_b\<close> are the attributes \<^verbatim>\<open>_A\<close>,
  \<^verbatim>\<open>_b\<close> (the working copies), \<open>pure_A\<close>, \<open>pure_b\<close> are \<^verbatim>\<open>_pure_A\<close>,
  \<^verbatim>\<open>_pure_b\<close>; \<open>g\<close> is \<^verbatim>\<open>phase[settings['conductance']]\<close> (\<open>None\<close>: the key
  is missing) and \<open>quantity\<close> is \<^verbatim>\<open>self[settings['quantity']]\<close> (\<open>None\<close>: no
  solution stored). \<^verbatim>\<open>__init__\<close> creates both boundary-condition arrays and
  no method removes them, so they are always present.\<close>

record alg =
  net :: network
  g :: "conductance option"
  sets :: settings
  bc_value :: "fl list"
  bc_rate :: "fl list"
  priv_A :: "coo_matrix option"
  pure_A :: "coo_matrix option"
  priv_b :: "real list option"
  pure_b :: "real list option"
  quantity :: "real list option"

definition Nt :: "network \<Rightarrow> nat" where
  "Nt n = length (conns n)"

text \<open>\<^verbatim>\<open>Ps\<close>, \<^verbatim>\<open>toindices\<close>, \<^verbatim>\<open>_parse_indices\<close> and \<^verbatim>\<open>_parse_mode\<close> belong to
  the base class, which is not among the sources. \<^verbatim>\<open>Ps\<close> is the array of all
  pore indices; \<^verbatim>\<open>_parse_indices\<close> turns its argument into an index array
  and is the identity on the index lists of the model; \<^verbatim>\<open>_parse_mode\<close> checks a
  string against the allowed ones, which the types \<^typ>\<open>bctype\<close> and
  \<^typ>\<open>mode\<close> stand for.\<close>

definition Ps :: "alg \<Rightarrow> nat list" where
  "Ps s = [0..<Np (net s)]"

section \<open>numpy primitives\<close>

definition isfinite :: "fl \<Rightarrow> bool" where
  "isfinite v = (v \<noteq> None)"

text \<open>\<^verbatim>\<open>xs[mask]\<close> for a boolean mask.\<close>

definition mask_select :: "'a list \<Rightarrow> bool list \<Rightarrow> 'a list" where
  "mask_select xs msk = map fst (filter snd (zip xs msk))"

text \<open>\<^verbatim>\<open>np.intersect1d\<close> and \<^verbatim>\<open>np.setdiff1d\<close>: sorted, without duplicates.\<close>

definition intersect1d :: "nat list \<Rightarrow> nat list \<Rightarrow> nat list" where
  "intersect1d xs ys = sort (remdups (filter (\<lambda>x. x \<in> set ys) xs))"

definition setdiff1d :: "nat list \<Rightarrow> nat list \<Rightarrow> nat list" where
  "setdiff1d xs ys = sort (remdups (filter (\<lambda>x. x \<notin> set ys) xs))"

text \<open>Broadcasting a one-dimensional value array to \<open>n\<close> index positions.\<close>

definition broadcast :: "nat \<Rightarrow> real list \<Rightarrow> error + real list" where
  "broadcast n vals =
     (if length vals = n then Inr vals
      else if length vals = 1 then Inr (replicate n (hd vals))
      else Inl BroadcastError)"

text \<open>Writing a list of (index, entry) pairs in order; a later pair wins.\<close>

fun put :: "fl list \<Rightarrow> (nat \<times> fl) list \<Rightarrow> fl list" where
  "put a [] = a"
| "put a ((i, v) # ivs) = put (a[i := v]) ivs"

text \<open>\<^verbatim>\<open>a[idx] = vals\<close> with an integer index array.\<close>

definition assign_at :: "fl list \<Rightarrow> nat list \<Rightarrow> real list \<Rightarrow> error + fl list" where
  "assign_at a idx vals =
     (case broadcast (length idx) vals of
        Inl e \<Rightarrow> Inl e
      | Inr vs \<Rightarrow>
          if \<exists>i \<in> set idx. length a \<le> i then Inl IndexError
          else Inr (put a (zip idx (map Some vs))))"

text \<open>Float addition: not-a-number absorbs.\<close>

fun fadd :: "fl \<Rightarrow> real \<Rightarrow> fl" where
  "fadd None v = None"
| "fadd (Some x) v = Some (x + v)"

text \<open>\<^verbatim>\<open>a[idx] += vals\<close>: the old entries are read, the sums computed, then written.\<close>

definition iadd_at :: "fl list \<Rightarrow> nat list \<Rightarrow> real list \<Rightarrow> error + fl list" where
  "iadd_at a idx vals =
     (if \<exists>i \<in> set idx. length a \<le> i then Inl IndexError
      else case broadcast (length idx) vals of
        Inl e \<Rightarrow> Inl e
      | Inr vs \<Rightarrow> Inr (put a (zip idx (map (\<lambda>(i, v). fadd (a ! i) v) (zip idx vs)))))"

section \<open>Boundary condition store\<close>

text \<open>\<^verbatim>\<open>self['pore.bc_' + bctype] = np.nan\<close>: a fresh array of \<open>Np\<close> unset entries.\<close>

definition clear_BC :: "bctype \<Rightarrow> alg \<Rightarrow> alg" where
  "clear_BC t s =
     (case t of
        Value \<Rightarrow> s\<lparr>bc_value := replicate (Np (net s)) None\<rparr>
      | Rate \<Rightarrow> s\<lparr>bc_rate := replicate (Np (net s)) None\<rparr>)"

text \<open>\<^verbatim>\<open>_set_BC\<close> (lines 300-371). The result is the exception raised, if any, and
  the object as the call leaves it. The two masks are computed before the
  array is cleared, as in the source; the warning they feed is a log message
  and is not modelled.\<close>

definition set_BC :: "nat list \<Rightarrow> bctype \<Rightarrow> real list \<Rightarrow> mode \<Rightarrow> alg \<Rightarrow> error option \<times> alg" where
  "set_BC pores t bcvalues m s =
     (if 1 < length bcvalues \<and> length bcvalues \<noteq> length pores then (Some ValuesMismatch, s)
      else
        let rate_BC_mask = map isfinite (bc_rate s);
            s1 = (if m = Overwrite then clear_BC t s else s)
        in case t of
             Value \<Rightarrow>
               (case assign_at (bc_value s1) pores bcvalues of
                  Inl e \<Rightarrow> (Some e, s1)
                | Inr a \<Rightarrow> (None, s1\<lparr>bc_value := a\<rparr>))
           | Rate \<Rightarrow>
               let bc_rate_current = mask_select (Ps s1) rate_BC_mask;
                   intersect = intersect1d bc_rate_current pores
               in (case iadd_at (bc_rate s1) intersect bcvalues of
                     Inl e \<Rightarrow> (Some e, s1)
                   | Inr a \<Rightarrow>
                       (case assign_at a (setdiff1d pores intersect) bcvalues of
                          Inl e \<Rightarrow> (Some e, s1\<lparr>bc_rate := a\<rparr>)
                        | Inr a' \<Rightarrow> (None, s1\<lparr>bc_rate := a'\<rparr>))))"

definition set_value_BC :: "nat list \<Rightarrow> real list \<Rightarrow> mode \<Rightarrow> alg \<Rightarrow> error option \<times> alg" where
  "set_value_BC pores vals m s = set_BC pores Value vals m s"

definition set_rate_BC :: "nat list \<Rightarrow> real list \<Rightarrow> mode \<Rightarrow> alg \<Rightarrow> error option \<times> alg" where
  "set_rate_BC pores vals m s = set_BC pores Rate vals m s"


section \<open>Sparse matrices in coordinate format\<close>

text \<open>The value of the matrix at \<open>(i, j)\<close>: duplicate triples are summed.\<close>

definition sum_at :: "(nat \<times> nat \<times> real) list \<Rightarrow> nat \<Rightarrow> nat \<Rightarrow> real" where
  "sum_at ts i j = sum_list (map (\<lambda>(r, c, d). d) (filter (\<lambda>(r, c, d). r = i \<and> c = j) ts))"

definition entry :: "coo_matrix \<Rightarrow> nat \<Rightarrow> nat \<Rightarrow> real" where
  "entry A i j = sum_at (triples A) i j"

text \<open>The constructor of a coordinate matrix refuses indices outside the shape.\<close>

definition wf_coo :: "coo_matrix \<Rightarrow> bool" where
  "wf_coo A = list_all (\<lambda>(r, c, d). r < shape A \<and> c < shape A) (triples A)"

definition diagonal :: "coo_matrix \<Rightarrow> real list" where
  "diagonal A = map (\<lambda>i. entry A i i) [0..<shape A]"

text \<open>\<^verbatim>\<open>m.sum(axis=0)\<close> at column \<open>j\<close>.\<close>

definition colsum :: "coo_matrix \<Rightarrow> nat \<Rightarrow> real" where
  "colsum A j = sum_list (map (\<lambda>(r, c, d). d) (filter (\<lambda>(r, c, d). c = j) (triples A)))"

text \<open>\<^verbatim>\<open>np.mean\<close> (of an empty array numpy gives not-a-number; here \<open>0\<close>).\<close>

definition mean :: "real list \<Rightarrow> real" where
  "mean xs = sum_list xs / real (length xs)"

text \<open>The product \<^verbatim>\<open>A * x\<close> of a sparse matrix and a dense vector.\<close>

definition matvec :: "coo_matrix \<Rightarrow> real list \<Rightarrow> real list" where
  "matvec A x =
     map (\<lambda>i. sum_list (map (\<lambda>(r, c, d). d * x ! c) (filter (\<lambda>(r, c, d). r = i) (triples A))))
       [0..<shape A]"

text \<open>\<^verbatim>\<open>coo_matrix.setdiag(values)\<close> for the main diagonal: the stored diagonal
  triples below \<open>max_index\<close> are dropped and the new diagonal is appended.\<close>

definition setdiag :: "real list \<Rightarrow> coo_matrix \<Rightarrow> coo_matrix" where
  "setdiag vals A =
     (let max_index = min (shape A) (length vals)
      in A\<lparr>triples :=
            filter (\<lambda>(r, c, d). c \<noteq> r \<or> max_index \<le> r) (triples A)
            @ map (\<lambda>i. (i, i, vals ! i)) [0..<max_index]\<rparr>)"

definition eliminate_zeros :: "coo_matrix \<Rightarrow> coo_matrix" where
  "eliminate_zeros A = A\<lparr>triples := filter (\<lambda>(r, c, d). d \<noteq> 0) (triples A)\<rparr>"

text \<open>\<^verbatim>\<open>toindices\<close>: the positions at which a boolean mask is true.\<close>

definition toindices :: "bool list \<Rightarrow> nat list" where
  "toindices msk = mask_select [0..<length msk] msk"

text \<open>\<^verbatim>\<open>numpy.linalg.norm\<close> of a vector.\<close>

definition norm_np :: "real list \<Rightarrow> real" where
  "norm_np xs = sqrt (sum_list (map (\<lambda>x. x * x) xs))"

section \<open>Conductance matrix builder\<close>

text \<open>Modelled from the spec: \<^verbatim>\<open>network.create_adjacency_matrix(weights, fmt='coo')\<close>
  is a method of the network class, which is not among the sources. Spec 6 has
  it accept per-edge weights and return a sparse matrix in coordinate format,
  and spec 4.1 has the entry \<open>(i, j)\<close> carry the conductance between \<open>i\<close> and
  \<open>j\<close>, parallel edges summed: every edge \<open>(i, j)\<close> with weight \<open>w\<close> gives the
  triples \<open>(i, j, w)\<close> and \<open>(j, i, w)\<close>. For a two-column conductance the first
  column is taken for the direction of the edge and the second for the reverse.\<close>

definition create_adjacency_matrix :: "network \<Rightarrow> conductance \<Rightarrow> coo_matrix" where
  "create_adjacency_matrix n gc =
     (case gc of
        PerThroat w \<Rightarrow>
          \<lparr>shape = Np n,
           triples = map (\<lambda>((i, j), x). (i, j, x)) (zip (conns n) w)
                   @ map (\<lambda>((i, j), x). (j, i, x)) (zip (conns n) w)\<rparr>
      | TwoColumn gs \<Rightarrow>
          \<lparr>shape = Np n,
           triples = map (\<lambda>((i, j), (x, y)). (i, j, x)) (zip (conns n) gs)
                   @ map (\<lambda>((i, j), (x, y)). (j, i, y)) (zip (conns n) gs)\<rparr>)"

text \<open>\<^verbatim>\<open>scipy.sparse.csgraph.laplacian\<close> (library code) on a coordinate matrix:
  the degree is the column sum without the diagonal entry, the data are
  negated and the degrees are written on the diagonal.\<close>

definition laplacian :: "coo_matrix \<Rightarrow> coo_matrix" where
  "laplacian m =
     (let w = map (\<lambda>i. colsum m i - entry m i i) [0..<shape m]
      in setdiag w (m\<lparr>triples := map (\<lambda>(r, c, d). (r, c, - d)) (triples m)\<rparr>))"

text \<open>\<^verbatim>\<open>_build_A\<close> (lines 403-419). \<^verbatim>\<open>copy()\<close> gives the working copy its own
  arrays, so the later in-place updates of \<^verbatim>\<open>self.A\<close> change \<open>priv_A\<close> only.\<close>

definition build_A :: "alg \<Rightarrow> (error + coo_matrix) \<times> alg" where
  "build_A s =
     (let s1 = (if \<not> cache_A (sets s) then s\<lparr>pure_A := None\<rparr> else s)
      in case pure_A s1 of
           Some P \<Rightarrow> (Inr P, s1\<lparr>priv_A := Some P\<rparr>)
         | None \<Rightarrow>
             (case g s1 of
                None \<Rightarrow> (Inl KeyError, s1)
              | Some gc \<Rightarrow>
                  let am = create_adjacency_matrix (net s1) gc;
                      P = laplacian am
                  in (Inr P, s1\<lparr>pure_A := Some P, priv_A := Some P\<rparr>)))"

text \<open>\<^verbatim>\<open>_build_b\<close> (lines 421-441).\<close>

definition build_b :: "alg \<Rightarrow> real list \<times> alg" where
  "build_b s =
     (let s1 = (if \<not> cache_b (sets s) then s\<lparr>pure_b := None\<rparr> else s)
      in case pure_b s1 of
           Some b \<Rightarrow> (b, s1\<lparr>priv_b := Some b\<rparr>)
         | None \<Rightarrow>
             let b = replicate (Np (net s1)) 0
             in (b, s1\<lparr>pure_b := Some b, priv_b := Some b\<rparr>))"

text \<open>The properties \<^verbatim>\<open>A\<close> and \<^verbatim>\<open>b\<close> (lines 443-461): built on first access only.\<close>

definition get_A :: "alg \<Rightarrow> (error + coo_matrix) \<times> alg" where
  "get_A s = (case priv_A s of None \<Rightarrow> build_A s | Some A \<Rightarrow> (Inr A, s))"

definition get_b :: "alg \<Rightarrow> real list \<times> alg" where
  "get_b s = (case priv_b s of None \<Rightarrow> build_b s | Some b \<Rightarrow> (b, s))"

section \<open>System assembler\<close>

text \<open>\<^verbatim>\<open>b[ind] = vals[ind]\<close> for \<^verbatim>\<open>ind = isfinite(vals)\<close>.\<close>

definition mask_set :: "real list \<Rightarrow> fl list \<Rightarrow> real list" where
  "mask_set b vals = map (\<lambda>(bk, v). case v of Some x \<Rightarrow> x | None \<Rightarrow> bk) (zip b vals)"

text \<open>\<^verbatim>\<open>_apply_BCs\<close> (lines 463-490). A boolean mask must be as long as the array
  it indexes, and the matrix as wide as the vector it multiplies; numpy and
  scipy raise otherwise.\<close>

definition apply_BCs :: "alg \<Rightarrow> error option \<times> alg" where
  "apply_BCs s =
     (case get_b s of (b0, s1) \<Rightarrow>
      if length (bc_rate s1) \<noteq> length b0 then (Some IndexError, s1)
      else
        let b1 = mask_set b0 (bc_rate s1);
            s2 = s1\<lparr>priv_b := Some b1\<rparr>
        in case get_A s2 of
             (Inl e, s3) \<Rightarrow> (Some e, s3)
           | (Inr A0, s3) \<Rightarrow>
               let f = mean (diagonal A0);
                   ind = map isfinite (bc_value s3)
               in if length ind \<noteq> length b1 then (Some IndexError, s3)
                  else
                    let b2 = mask_set b1 (map (map_option (\<lambda>x. x * f)) (bc_value s3));
                        x_BC = map (\<lambda>v. case v of Some x \<Rightarrow> x | None \<Rightarrow> 0) (bc_value s3)
                    in if shape A0 \<noteq> length x_BC
                       then (Some DimensionMismatch, s3\<lparr>priv_b := Some b2\<rparr>)
                       else
                         let Ax = matvec A0 x_BC;
                             b3 = map (\<lambda>k. if ind ! k then b2 ! k else b2 ! k - Ax ! k)
                                    [0..<length b2];
                             P_bc = toindices ind;
                             A1 = A0\<lparr>triples :=
                                    map (\<lambda>(r, c, d). (r, c, if r \<in> set P_bc then 0 else d))
                                      (triples A0)\<rparr>;
                             A2 = A1\<lparr>triples :=
                                    map (\<lambda>(r, c, d). (r, c, if c \<in> set P_bc then 0 else d))
                                      (triples A1)\<rparr>;
                             datadiag = diagonal A2;
                             datadiag' = map (\<lambda>i. if i \<in> set P_bc then f else datadiag ! i)
                                           [0..<length datadiag];
                             A3 = setdiag datadiag' A2;
                             A4 = eliminate_zeros A3
                         in (None, s3\<lparr>priv_b := Some b3, priv_A := Some A4\<rparr>))"


section \<open>Solver dispatcher\<close>

text \<open>What the engine calls outside the sources: \<^verbatim>\<open>op.utils.is_symmetric\<close>, the
  functions of \<^verbatim>\<open>scipy.sparse.linalg\<close> (the iterative ones return the solution
  and an exit code; \<open>None\<close>: no attribute of that name), and the PETSc and PyAMG
  wrappers (\<open>None\<close>: the package is not installed).\<close>

record env =
  is_symmetric :: "coo_matrix \<Rightarrow> bool"
  scipy_iterative ::
    "string \<Rightarrow> coo_matrix \<Rightarrow> real list \<Rightarrow> real \<Rightarrow> real \<Rightarrow> nat \<Rightarrow> real list \<Rightarrow> real list \<times> int"
  scipy_other :: "string \<Rightarrow> (coo_matrix \<Rightarrow> real list \<Rightarrow> real list) option"
  petsc ::
    "(string \<Rightarrow> string \<Rightarrow> coo_matrix \<Rightarrow> real list \<Rightarrow> real list \<Rightarrow> real \<Rightarrow> real \<Rightarrow> nat
       \<Rightarrow> real list) option"
  pyamg :: "(coo_matrix \<Rightarrow> real list \<Rightarrow> real \<Rightarrow> nat \<Rightarrow> real list) option"

definition iterative :: "string list" where
  "iterative = [''bicg'', ''bicgstab'', ''cg'', ''cgs'', ''gmres'', ''lgmres'',
                ''minres'', ''gcrotmk'', ''qmr'']"

text \<open>\<^verbatim>\<open>_get_atol\<close> (lines 607-619).\<close>

definition get_atol :: "settings \<Rightarrow> real list \<Rightarrow> real" where
  "get_atol st b =
     (case solver_atol st of Some atol \<Rightarrow> atol | None \<Rightarrow> norm_np b * solver_tol st)"

text \<open>\<^verbatim>\<open>_get_residual\<close> (lines 788-797) at a given \<open>x\<close>.\<close>

definition get_residual :: "coo_matrix \<Rightarrow> real list \<Rightarrow> real list \<Rightarrow> error + real" where
  "get_residual A b x =
     (if shape A \<noteq> length x then Inl DimensionMismatch
      else if shape A \<noteq> length b then Inl BroadcastError
      else Inr (norm_np (map (\<lambda>(p, q). p - q) (zip (matvec A x) b))))"

text \<open>\<^verbatim>\<open>_get_rtol\<close> (lines 621-634). A zero residual makes numpy return an
  infinity; the model has the quotient of HOL there.\<close>

definition get_rtol :: "settings \<Rightarrow> coo_matrix \<Rightarrow> real list \<Rightarrow> real list \<Rightarrow> error + real" where
  "get_rtol st A b x0 =
     (case solver_rtol st of
        Some rtol \<Rightarrow> Inr rtol
      | None \<Rightarrow>
          (case get_residual A b x0 of
             Inl e \<Rightarrow> Inl e
           | Inr res0 \<Rightarrow> Inr (get_atol st b / res0)))"

text \<open>\<^verbatim>\<open>_solve\<close> (lines 519-605) as \<^verbatim>\<open>_run_generic\<close> calls it, with \<^verbatim>\<open>A\<close> and
  \<^verbatim>\<open>b\<close> left to the object's own. The test for a missing \<^verbatim>\<open>A\<close> or \<^verbatim>\<open>b\<close>
  cannot fire, since the properties build what is missing.\<close>

definition solve :: "env \<Rightarrow> real list \<Rightarrow> alg \<Rightarrow> (error + real list) \<times> alg" where
  "solve ev x0 s =
     (case get_A s of
        (Inl e, s1) \<Rightarrow> (Inl e, s1)
      | (Inr A, s1) \<Rightarrow>
          (case get_b s1 of (b, s2) \<Rightarrow>
             let st = sets s2;
                 tol = solver_tol st;
                 max_it = solver_maxiter st;
                 atol = get_atol st b
             in case get_rtol st A b x0 of
                  Inl e \<Rightarrow> (Inl e, s2)
                | Inr rtol \<Rightarrow>
                    if solver_type st = ''cg'' \<and> \<not> is_symmetric ev A
                    then (Inl CGNotSymmetric, s2)
                    else if solver_family st = ''scipy'' then
                      (if solver_type st \<in> set iterative then
                         (case scipy_iterative ev (solver_type st) A b atol tol max_it x0 of
                            (x, exit_code) \<Rightarrow>
                              if 0 < exit_code then (Inl (DidNotConverge exit_code), s2)
                              else (Inr x, s2))
                       else
                         (case scipy_other ev (solver_type st) of
                            None \<Rightarrow> (Inl AttributeError, s2)
                          | Some solver \<Rightarrow> (Inr (solver A b), s2)))
                    else if solver_family st = ''petsc'' then
                      (case petsc ev of
                         None \<Rightarrow> (Inl PETScMissing, s2)
                       | Some ls \<Rightarrow>
                           (Inr (ls (solver_type st) (solver_preconditioner st) A b x0
                                    atol rtol max_it), s2))
                    else if solver_family st = ''pyamg'' then
                      (case pyamg ev of
                         None \<Rightarrow> (Inl PyAMGMissing, s2)
                       | Some ml \<Rightarrow> (Inr (ml A b rtol max_it), s2))
                    else (Inl UnboundLocalError, s2)))"

text \<open>\<^verbatim>\<open>_run_generic\<close> and \<^verbatim>\<open>run\<close> (lines 492-517). The argument \<open>x0\<close> is
  overwritten by zeros before the solve.\<close>

definition run_generic :: "env \<Rightarrow> real list option \<Rightarrow> alg \<Rightarrow> error option \<times> alg" where
  "run_generic ev x0 s =
     (case apply_BCs s of
        (Some e, s1) \<Rightarrow> (Some e, s1)
      | (None, s1) \<Rightarrow>
          (case get_b s1 of (b, s2) \<Rightarrow>
             let x0' = replicate (length b) 0
             in case solve ev x0' s2 of
                  (Inl e, s3) \<Rightarrow> (Some e, s3)
                | (Inr x_new, s3) \<Rightarrow> (None, s3\<lparr>quantity := Some x_new\<rparr>)))"

definition run :: "env \<Rightarrow> real list option \<Rightarrow> alg \<Rightarrow> error option \<times> alg" where
  "run ev x0 s = run_generic ev x0 s"

section \<open>Post-solve analytics\<close>

text \<open>Lines 691-694: a conductance with \<open>Nt\<close> elements is tiled to two equal
  columns; then the columns are flipped. The shapes for which numpy raises
  are written out.\<close>

definition tile_flip :: "nat \<Rightarrow> conductance \<Rightarrow> error + (real \<times> real) list" where
  "tile_flip nt gc =
     (case gc of
        PerThroat w \<Rightarrow>
          if length w = nt then Inr (map (\<lambda>x. (x, x)) w) else Inl AxisError
      | TwoColumn gs \<Rightarrow>
          if 2 * length gs = nt then
            (case gs of
               [(x, y)] \<Rightarrow> Inr [(x, x), (y, y)]
             | _ \<Rightarrow> Inl BroadcastError)
          else if length gs = nt then Inr (map (\<lambda>(x, y). (y, x)) gs)
          else
            (case gs of
               [(x, y)] \<Rightarrow> Inr (replicate nt (y, x))
             | _ \<Rightarrow> Inl BroadcastError))"

text \<open>\<^verbatim>\<open>np.add.at(Qp, idx, vals)\<close>: unbuffered accumulation.\<close>

fun add_at :: "real list \<Rightarrow> (nat \<times> real) list \<Rightarrow> real list" where
  "add_at a [] = a"
| "add_at a ((i, v) # ivs) = add_at (a[i := a ! i + v]) ivs"

text \<open>\<^verbatim>\<open>rate\<close> (lines 645-712). The method reads the object and writes nothing
  to it, so the model returns the result alone. \<^verbatim>\<open>squeeze()\<close> makes \<open>Qt\<close> a
  scalar when there is one throat: indexing it by throats raises, adding it
  at the pores broadcasts.\<close>

definition rate :: "nat list \<Rightarrow> nat list \<Rightarrow> rate_mode \<Rightarrow> alg \<Rightarrow> error + real list" where
  "rate pores throats m s =
     (case g s of
        None \<Rightarrow> Inl KeyError
      | Some gc \<Rightarrow>
     (case quantity s of
        None \<Rightarrow> Inl KeyError
      | Some q \<Rightarrow>
          let P12 = conns (net s)
          in if \<exists>(i, j) \<in> set P12. length q \<le> i \<or> length q \<le> j then Inl IndexError
             else
               let X12 = map (\<lambda>(i, j). (q ! i, q ! j)) P12
               in case tile_flip (Nt (net s)) gc of
                    Inl e \<Rightarrow> Inl e
                  | Inr gf \<Rightarrow>
                      let Qt = map (\<lambda>((g1, g2), (x1, x2)). g2 * x2 - g1 * x1) (zip gf X12)
                      in if throats \<noteq> [] \<and> pores \<noteq> [] then Inl BothGiven
                         else if throats = [] \<and> pores = [] then Inl NeitherGiven
                         else if throats \<noteq> [] then
                           (if length Qt = 1 \<or> (\<exists>t \<in> set throats. length Qt \<le> t)
                            then Inl IndexError
                            else
                              let R = map (\<lambda>t. \<bar>Qt ! t\<bar>) throats
                              in Inr (if m = Group then [sum_list R] else R))
                         else
                           (if \<exists>(i, j) \<in> set P12. Np (net s) \<le> i \<or> Np (net s) \<le> j
                            then Inl IndexError
                            else
                              let Qp0 = replicate (Np (net s)) 0;
                                  Qp1 = add_at Qp0 (zip (map fst P12) (map uminus Qt));
                                  Qp = add_at Qp1 (zip (map snd P12) Qt)
                              in if \<exists>p \<in> set pores. Np (net s) \<le> p then Inl IndexError
                                 else
                                   let R = map (\<lambda>p. Qp ! p) pores
                                   in Inr (if m = Group then [sum_list R] else R))))"



section \<open>Initial object and example inputs\<close>

text \<open>The default settings (lines 14-25).\<close>

definition def_set :: settings where
  "def_set = \<lparr>solver_family = ''scipy'', solver_type = ''spsolve'',
     solver_preconditioner = ''jacobi'', solver_tol = 1 / 1000000,
     solver_atol = None, solver_rtol = None, solver_maxiter = 5000,
     cache_A = True, cache_b = True\<rparr>"

text \<open>\<^verbatim>\<open>__init__\<close> (lines 121-137): nothing built, no boundary condition set.\<close>

definition init :: "network \<Rightarrow> conductance option \<Rightarrow> alg" where
  "init n gc = \<lparr>net = n, g = gc, sets = def_set,
     bc_value = replicate (Np n) None, bc_rate = replicate (Np n) None,
     priv_A = None, pure_A = None, priv_b = None, pure_b = None, quantity = None\<rparr>"

text \<open>Two pores joined by one throat, pore 0 carrying the rate 5.\<close>

definition two_pores :: alg where
  "two_pores = (init \<lparr>Np = 2, conns = [(0, 1)]\<rparr> (Some (PerThroat [1])))\<lparr>bc_rate := [Some 5, None]\<rparr>"


text \<open>A chain of five pores with unit conductance on its four throats, the
  value 1 imposed at pore 0 and the value 0 at pore 4.\<close>

definition chain_net :: network where
  "chain_net = \<lparr>Np = 5, conns = [(0, 1), (1, 2), (2, 3), (3, 4)]\<rparr>"

definition chain :: alg where
  "chain = snd (set_value_BC [4] [0] Merge
             (snd (set_value_BC [0] [1] Merge (init chain_net (Some (PerThroat [1, 1, 1, 1]))))))"

definition chain_x :: "real list" where
  "chain_x = [1, 3 / 4, 1 / 2, 1 / 4, 0]"

definition chain_solved :: alg where
  "chain_solved = chain\<lparr>quantity := Some chain_x\<rparr>"

text \<open>An exact symmetry test, and an environment in which only the direct
  solver \<^verbatim>\<open>spsolve\<close> is available and answers with \<open>f\<close>.\<close>

definition sym_exact :: "coo_matrix \<Rightarrow> bool" where
  "sym_exact A =
     list_all (\<lambda>i. list_all (\<lambda>j. entry A i j = entry A j i) [0..<shape A]) [0..<shape A]"

definition direct_env :: "(coo_matrix \<Rightarrow> real list \<Rightarrow> real list) \<Rightarrow> env" where
  "direct_env f =
     \<lparr>is_symmetric = sym_exact,
      scipy_iterative = (\<lambda>name A b atol tol maxiter x0. (x0, 1)),
      scipy_other = (\<lambda>name. if name = ''spsolve'' then Some f else None),
      petsc = None, pyamg = None\<rparr>"

text \<open>Two pores whose working matrix has been set to a matrix with the single
  entry \<open>(0, 1)\<close>, with the conjugate-gradient solver selected.\<close>

definition cg_alg :: alg where
  "cg_alg = (init \<lparr>Np = 2, conns = [(0, 1)]\<rparr> (Some (PerThroat [1])))
            \<lparr>sets := def_set\<lparr>solver_type := ''cg''\<rparr>,
             priv_A := Some \<lparr>shape = 2, triples = [(0, 1, 1)]\<rparr>\<rparr>"

definition cg_alg_applied :: alg where
  "cg_alg_applied = cg_alg\<lparr>priv_b := Some [0, 0], pure_b := Some [0, 0]\<rparr>"

text \<open>The chain with its system built, and with the boundary conditions applied.\<close>

definition chain_A :: coo_matrix where
  "chain_A = \<lparr>shape = 5,
     triples = [(0, 1, - 1), (1, 2, - 1), (2, 3, - 1), (3, 4, - 1),
                (1, 0, - 1), (2, 1, - 1), (3, 2, - 1), (4, 3, - 1),
                (0, 0, 1), (1, 1, 2), (2, 2, 2), (3, 3, 2), (4, 4, 1)]\<rparr>"

definition chain_built :: alg where
  "chain_built = chain\<lparr>priv_A := Some chain_A, pure_A := Some chain_A,
                       priv_b := Some [0, 0, 0, 0, 0], pure_b := Some [0, 0, 0, 0, 0]\<rparr>"

definition chain_A_bc :: coo_matrix where
  "chain_A_bc = \<lparr>shape = 5,
     triples = [(1, 2, - 1), (2, 3, - 1), (2, 1, - 1), (3, 2, - 1),
                (0, 0, 8 / 5), (1, 1, 2), (2, 2, 2), (3, 3, 2), (4, 4, 8 / 5)]\<rparr>"

definition chain_b_bc :: "real list" where
  "chain_b_bc = [8 / 5, 1, 0, 0, 0]"

definition chain_applied :: alg where
  "chain_applied = chain_built\<lparr>priv_A := Some chain_A_bc, priv_b := Some chain_b_bc\<rparr>"

text \<open>The object has both pure versions cached, with caching enabled.\<close>

definition cached :: "coo_matrix \<Rightarrow> real list \<Rightarrow> alg \<Rightarrow> bool" where
  "cached P pb s \<longleftrightarrow>
     pure_A s = Some P \<and> pure_b s = Some pb \<and> cache_A (sets s) \<and> cache_b (sets s)"

text \<open>The assembled system of a second run on the chain, after the value at
  pore 0 has been changed to 2.\<close>

definition chain_A_bc2 :: coo_matrix where
  "chain_A_bc2 = \<lparr>shape = 5,
     triples = [(1, 2, - 1), (2, 3, - 1), (2, 1, - 1), (3, 2, - 1),
                (0, 0, 46 / 25), (1, 1, 2), (2, 2, 2), (3, 3, 2), (4, 4, 46 / 25)]\<rparr>"

section \<open>Boundary condition store: proofs\<close>


lemma put_nth_other: "q \<notin> fst ` set ivs \<Longrightarrow> put a ivs ! q = a ! q"
  by (induction a ivs rule: put.induct) auto

lemma put_nth_in:
  "distinct (map fst ivs) \<Longrightarrow> (i, v) \<in> set ivs \<Longrightarrow> i < length a \<Longrightarrow> put a ivs ! i = v"
proof (induction a ivs rule: put.induct)
  case (1 a)
  then show ?case by simp
next
  case (2 a j w ivs)
  show ?case
  proof (cases "(i, v) = (j, w)")
    case True
    with 2 have "i \<notin> fst ` set ivs" by auto
    with True 2 show ?thesis by (simp add: put_nth_other)
  next
    case False
    with 2 show ?thesis by auto
  qed
qed

lemma mask_select_upt:
  "length xs = n \<Longrightarrow> mask_select [0..<n] (map f xs) = filter (\<lambda>i. f (xs ! i)) [0..<n]"
proof -
  assume n: "length xs = n"
  have "map f xs = map (\<lambda>i. f (xs ! i)) [0..<n]"
    using n by (auto intro: nth_equalityI)
  then have "zip [0..<n] (map f xs) = map (\<lambda>i. (i, f (xs ! i))) [0..<n]"
    by (simp add: zip_map2 zip_same_conv_map)
  then show ?thesis
    by (simp add: mask_select_def filter_map comp_def)
qed













lemma put_zip_other: "q \<notin> set idx \<Longrightarrow> put a (zip idx ys) ! q = a ! q"
  by (rule put_nth_other) (auto dest: set_zip_leftD)









section \<open>The example inputs\<close>

lemma chain_eq:
  "chain = (init chain_net (Some (PerThroat [1, 1, 1, 1])))
             \<lparr>bc_value := [Some 1, None, None, None, Some 0]\<rparr>"
  by (simp add: chain_def set_value_BC_def set_BC_def init_def chain_net_def assign_at_def
      broadcast_def Let_def numeral_eq_Suc)

section \<open>Overwrite mode\<close>

text \<open>
  For the value kind, overwrite does what its documentation says: with distinct
  pores \<open>P\<close> and one value per pore, afterwards the pores of \<open>P\<close> hold their
  values, every other pore is unset, and the rates are untouched.
\<close>

lemma set_value_BC_overwrite:
  assumes d: "distinct P" and rng: "\<forall>p \<in> set P. p < Np (net s)" and len: "length vs = length P"
  shows "\<exists>s'. set_value_BC P vs Overwrite s = (None, s')
           \<and> (\<forall>k < length P. bc_value s' ! (P ! k) = Some (vs ! k))
           \<and> (\<forall>q. q < Np (net s) \<and> q \<notin> set P \<longrightarrow> bc_value s' ! q = None)
           \<and> bc_rate s' = bc_rate s"
proof -
  let ?c = "replicate (Np (net s)) (None :: real option)"
  let ?ivs = "zip P (map Some vs)"
  let ?a = "put ?c ?ivs"
  have bc: "broadcast (length P) vs = Inr vs" using len by (simp add: broadcast_def)
  have nr: "\<not> (\<exists>i \<in> set P. length ?c \<le> i)" using rng by auto
  have as: "assign_at ?c P vs = Inr ?a"
    using nr by (simp add: assign_at_def bc)
  have run: "set_value_BC P vs Overwrite s = (None, (clear_BC Value s)\<lparr>bc_value := ?a\<rparr>)"
    using len as by (simp add: set_value_BC_def set_BC_def Let_def clear_BC_def)
  have fst: "map fst ?ivs = P" using len by simp
  have inP: "?a ! (P ! k) = Some (vs ! k)" if "k < length P" for k
  proof (rule put_nth_in)
    show "distinct (map fst ?ivs)" using d fst by simp
    have "?ivs ! k = (P ! k, Some (vs ! k))" using that len by simp
    moreover have "k < length ?ivs" using that len by simp
    ultimately show "(P ! k, Some (vs ! k)) \<in> set ?ivs" by (metis nth_mem)
    show "P ! k < length ?c" using rng that by simp
  qed
  have out: "?a ! q = None" if "q < Np (net s)" "q \<notin> set P" for q
    using that by (simp add: put_zip_other)
  show ?thesis
    using run inP out by (simp add: clear_BC_def)
qed

text \<open>
  Claim C5, evaluated for the rate kind. Pore 0 of \<open>two_pores\<close> carries the rate
  5. \<^verbatim>\<open>set_rate_BC(pores=[0], values=3, mode='overwrite')\<close> returns without
  an exception and leaves pore 0 unset: the mask of rate-bound pores is taken
  before the array is cleared, so the new value is added to the cleared entry,
  and not-a-number plus 3 is not-a-number. With the value array \<open>[3, 4]\<close> for
  the pores \<open>[0, 1]\<close> the call raises a broadcast error.
\<close>

theorem set_rate_BC_overwrite_loses_rebound:
  "set_rate_BC [0] [3] Overwrite two_pores = (None, two_pores\<lparr>bc_rate := [None, None]\<rparr>)
   \<and> fst (set_rate_BC [0, 1] [3, 4] Overwrite two_pores) = Some BroadcastError"
  by code_simp

section \<open>The initial guess\<close>


section \<open>Input validation of the rate query\<close>

text \<open>
  Claim C9. On an object that holds a solution \<open>q\<close> covering both ends of every
  throat, with a conductance array that fits the network, \<^verbatim>\<open>rate\<close> with pores
  and throats both given raises 'Must specify either pores or throats, not
  both', and with neither given raises 'Must specify either pores or throats';
  both are exceptions of the same class. \<^verbatim>\<open>rate\<close> only reads the object: its
  model has the object as an argument and no object in its result.
\<close>

theorem rate_both_or_neither:
  assumes "g s = Some gc" and "quantity s = Some q"
    and "list_all (\<lambda>(i, j). i < length q \<and> j < length q) (conns (net s))"
    and "tile_flip (Nt (net s)) gc = Inr gf"
  shows "(pores \<noteq> [] \<and> throats \<noteq> [] \<longrightarrow> rate pores throats m s = Inl BothGiven)
       \<and> rate [] [] m s = Inl NeitherGiven"
proof -
  have "\<not> (\<exists>(i, j) \<in> set (conns (net s)). length q \<le> i \<or> length q \<le> j)"
    using assms(3) by (auto simp: list_all_iff)
  then show ?thesis
    using assms(1,2,4) by (simp add: rate_def Let_def)
qed

theorem rate_both_or_neither_witness:
  "g chain_solved = Some (PerThroat [1, 1, 1, 1])
   \<and> quantity chain_solved = Some chain_x
   \<and> list_all (\<lambda>(i, j). i < length chain_x \<and> j < length chain_x) (conns (net chain_solved))
   \<and> tile_flip (Nt (net chain_solved)) (PerThroat [1, 1, 1, 1])
       = Inr [(1, 1), (1, 1), (1, 1), (1, 1)]
   \<and> rate [0] [1] Group chain_solved = Inl BothGiven
   \<and> rate [] [] Group chain_solved = Inl NeitherGiven"
proof -
  have h1: "g chain_solved = Some (PerThroat [1, 1, 1, 1])"
    by (simp add: chain_solved_def chain_eq init_def)
  have h2: "quantity chain_solved = Some chain_x"
    by (simp add: chain_solved_def)
  have h3: "list_all (\<lambda>(i, j). i < length chain_x \<and> j < length chain_x)
              (conns (net chain_solved))"
    by (simp add: chain_solved_def chain_eq init_def chain_net_def chain_x_def)
  have h4: "tile_flip (Nt (net chain_solved)) (PerThroat [1, 1, 1, 1])
              = Inr [(1, 1), (1, 1), (1, 1), (1, 1)]"
    by (simp add: chain_solved_def chain_eq init_def chain_net_def tile_flip_def Nt_def)
  show ?thesis
    using rate_both_or_neither[OF h1 h2 h3 h4, of "[0]" "[1]" Group] h1 h2 h3 h4
    by simp
qed

section \<open>Flux conservation of the rate query\<close>

lemma sum_list_upd:
  fixes a :: "real list"
  shows "i < length a \<Longrightarrow> sum_list (a[i := x]) = sum_list a - a ! i + x"
proof (induction a arbitrary: i)
  case Nil
  then show ?case by simp
next
  case (Cons y ys)
  then show ?case by (cases i) simp_all
qed

lemma length_add_at: "length (add_at a ivs) = length a"
  by (induction a ivs rule: add_at.induct) simp_all

lemma sum_list_add_at:
  "\<forall>iv \<in> set ivs. fst iv < length a \<Longrightarrow>
     sum_list (add_at a ivs) = sum_list a + sum_list (map snd ivs)"
proof (induction a ivs rule: add_at.induct)
  case (1 a)
  then show ?case by simp
next
  case (2 a i v ivs)
  have i: "i < length a" using 2(2) by simp
  have "sum_list (add_at (a[i := a ! i + v]) ivs)
          = sum_list (a[i := a ! i + v]) + sum_list (map snd ivs)"
    using 2 by simp
  then show ?case using i by (simp add: sum_list_upd)
qed

lemma tile_flip_length: "tile_flip nt gc = Inr gf \<Longrightarrow> length gf = nt"
  by (auto simp: tile_flip_def split: conductance.splits if_splits list.splits prod.splits)

lemma sum_list_partition:
  fixes Qp :: "real list"
  assumes "distinct X" "distinct Y" "set X \<union> set Y = {..<length Qp}" "set X \<inter> set Y = {}"
  shows "sum_list (map (\<lambda>p. Qp ! p) X) + sum_list (map (\<lambda>p. Qp ! p) Y) = sum_list Qp"
proof -
  have "sum_list (map (\<lambda>p. Qp ! p) X) = sum (\<lambda>p. Qp ! p) (set X)"
    using assms(1) by (simp add: sum_list_distinct_conv_sum_set)
  moreover have "sum_list (map (\<lambda>p. Qp ! p) Y) = sum (\<lambda>p. Qp ! p) (set Y)"
    using assms(2) by (simp add: sum_list_distinct_conv_sum_set)
  moreover have "sum (\<lambda>p. Qp ! p) (set X) + sum (\<lambda>p. Qp ! p) (set Y)
                   = sum (\<lambda>p. Qp ! p) (set X \<union> set Y)"
    using assms(4) by (simp add: sum.union_disjoint)
  moreover have "sum_list Qp = sum (\<lambda>p. Qp ! p) {..<length Qp}"
    by (simp add: sum_list_sum_nth atLeast0LessThan)
  ultimately show ?thesis using assms(3) by simp
qed

lemma rate_pores_group:
  assumes g: "g s = Some gc" and q: "quantity s = Some q"
    and tf: "tile_flip (Nt (net s)) gc = Inr gf"
    and cq: "list_all (\<lambda>(i, j). i < length q \<and> j < length q) (conns (net s))"
    and cn: "list_all (\<lambda>(i, j). i < Np (net s) \<and> j < Np (net s)) (conns (net s))"
    and X: "X \<noteq> []" "set X \<subseteq> {..<Np (net s)}"
  shows "\<exists>Qp. length Qp = Np (net s) \<and> sum_list Qp = 0 \<and>
              (\<forall>Z. Z \<noteq> [] \<and> set Z \<subseteq> {..<Np (net s)} \<longrightarrow>
                 rate Z [] Group s = Inr [sum_list (map (\<lambda>p. Qp ! p) Z)])"
proof -
  define P12 where "P12 = conns (net s)"
  define Qt where "Qt = map (\<lambda>((g1, g2), (x1, x2)). g2 * x2 - g1 * x1)
                          (zip gf (map (\<lambda>(i, j). (q ! i, q ! j)) P12))"
  define Qp1 where "Qp1 = add_at (replicate (Np (net s)) 0) (zip (map fst P12) (map uminus Qt))"
  define Qp where "Qp = add_at Qp1 (zip (map snd P12) Qt)"
  have lenQt: "length Qt = length P12"
    using tile_flip_length[OF tf] by (simp add: Qt_def P12_def Nt_def)
  have nq: "\<not> (\<exists>(i, j) \<in> set P12. length q \<le> i \<or> length q \<le> j)"
    using cq by (auto simp: list_all_iff P12_def)
  have nn: "\<not> (\<exists>(i, j) \<in> set P12. Np (net s) \<le> i \<or> Np (net s) \<le> j)"
    using cn by (auto simp: list_all_iff P12_def)
  have r1: "\<forall>iv \<in> set (zip (map fst P12) (map uminus Qt)). fst iv < length (replicate (Np (net s)) (0::real))"
    using cn by (fastforce simp: list_all_iff P12_def dest!: set_zip_leftD)
  have len1: "length Qp1 = Np (net s)"
    by (simp add: Qp1_def length_add_at)
  have r2: "\<forall>iv \<in> set (zip (map snd P12) Qt). fst iv < length Qp1"
    using cn len1 by (fastforce simp: list_all_iff P12_def dest!: set_zip_leftD)
  have um: "sum_list (map uminus xs) = - sum_list xs" for xs :: "real list"
    by (induction xs) simp_all
  have s1: "sum_list Qp1 = - sum_list Qt"
    unfolding Qp1_def using sum_list_add_at[OF r1] lenQt
    by (simp add: um sum_list_replicate)
  have s2: "sum_list Qp = 0"
    unfolding Qp_def using sum_list_add_at[OF r2] lenQt s1 by simp
  have len: "length Qp = Np (net s)"
    by (simp add: Qp_def length_add_at len1)
  have val: "rate Z [] Group s = Inr [sum_list (map (\<lambda>p. Qp ! p) Z)]"
    if "Z \<noteq> []" "set Z \<subseteq> {..<Np (net s)}" for Z
  proof -
    have nz: "\<not> (\<exists>p \<in> set Z. Np (net s) \<le> p)" using that(2) by auto
    show ?thesis
      using g q tf nq nn nz that(1)
      unfolding Qp_def Qp1_def Qt_def P12_def
      by (simp add: rate_def Let_def)
  qed
  show ?thesis using len s2 val by blast
qed


text \<open>
  Claim C7, as amended. On an object that holds a quantity field \<open>q\<close> and a
  conductance array fitting the network (one value or two per throat), with
  every throat end a pore of the network: for every non-empty list \<open>X\<close> of
  distinct pores whose complement \<open>Y\<close> is non-empty too, \<^verbatim>\<open>rate(pores=X,
  mode='group')\<close> is the negative of \<^verbatim>\<open>rate(pores=Y, mode='group')\<close>. The field
  need not come from a solve.
\<close>

theorem rate_group_conservation:
  assumes g: "g s = Some gc" and q: "quantity s = Some q"
    and tf: "tile_flip (Nt (net s)) gc = Inr gf"
    and cq: "list_all (\<lambda>(i, j). i < length q \<and> j < length q) (conns (net s))"
    and cn: "list_all (\<lambda>(i, j). i < Np (net s) \<and> j < Np (net s)) (conns (net s))"
    and X: "X \<noteq> []" "Y \<noteq> []" "distinct X" "distinct Y"
      "set X \<union> set Y = {..<Np (net s)}" "set X \<inter> set Y = {}"
  shows "\<exists>a. rate X [] Group s = Inr [a] \<and> rate Y [] Group s = Inr [- a]"
proof -
  have sX: "set X \<subseteq> {..<Np (net s)}" and sY: "set Y \<subseteq> {..<Np (net s)}"
    using X(5) by auto
  obtain Qp where Qp: "length Qp = Np (net s)" "sum_list Qp = 0"
    "\<And>Z. Z \<noteq> [] \<Longrightarrow> set Z \<subseteq> {..<Np (net s)} \<Longrightarrow>
       rate Z [] Group s = Inr [sum_list (map (\<lambda>p. Qp ! p) Z)]"
    using rate_pores_group[OF g q tf cq cn X(1) sX] by blast
  have "sum_list (map (\<lambda>p. Qp ! p) X) + sum_list (map (\<lambda>p. Qp ! p) Y) = sum_list Qp"
    using sum_list_partition[of X Y Qp] X(3,4,5,6) Qp(1) by simp
  then have "sum_list (map (\<lambda>p. Qp ! p) Y) = - sum_list (map (\<lambda>p. Qp ! p) X)"
    using Qp(2) by simp
  then show ?thesis using Qp(3)[OF X(1) sX] Qp(3)[OF X(2) sY] by simp
qed


theorem rate_group_conservation_witness:
  "g chain_solved = Some (PerThroat [1, 1, 1, 1])
   \<and> quantity chain_solved = Some chain_x
   \<and> tile_flip (Nt (net chain_solved)) (PerThroat [1, 1, 1, 1])
       = Inr [(1, 1), (1, 1), (1, 1), (1, 1)]
   \<and> list_all (\<lambda>(i, j). i < length chain_x \<and> j < length chain_x) (conns (net chain_solved))
   \<and> list_all (\<lambda>(i, j). i < Np (net chain_solved) \<and> j < Np (net chain_solved))
        (conns (net chain_solved))
   \<and> [0::nat] \<noteq> [] \<and> [1::nat, 2, 3, 4] \<noteq> [] \<and> distinct [0::nat] \<and> distinct [1::nat, 2, 3, 4]
   \<and> set [0] \<union> set [1, 2, 3, 4] = {..<Np (net chain_solved)}
   \<and> set [0::nat] \<inter> set [1, 2, 3, 4] = {}
   \<and> (\<exists>a. rate [0] [] Group chain_solved = Inr [a]
          \<and> rate [1, 2, 3, 4] [] Group chain_solved = Inr [- a])"
proof -
  have h1: "g chain_solved = Some (PerThroat [1, 1, 1, 1])"
    by (simp add: chain_solved_def chain_eq init_def)
  have h2: "quantity chain_solved = Some chain_x"
    by (simp add: chain_solved_def)
  have h3: "tile_flip (Nt (net chain_solved)) (PerThroat [1, 1, 1, 1])
              = Inr [(1, 1), (1, 1), (1, 1), (1, 1)]"
    by (simp add: chain_solved_def chain_eq init_def chain_net_def tile_flip_def Nt_def)
  have h4: "list_all (\<lambda>(i, j). i < length chain_x \<and> j < length chain_x)
              (conns (net chain_solved))"
    by (simp add: chain_solved_def chain_eq init_def chain_net_def chain_x_def)
  have h5: "list_all (\<lambda>(i, j). i < Np (net chain_solved) \<and> j < Np (net chain_solved))
              (conns (net chain_solved))"
    by (simp add: chain_solved_def chain_eq init_def chain_net_def)
  have h6: "set [0] \<union> set [1, 2, 3, 4] = {..<Np (net chain_solved)}"
    by (auto simp: chain_solved_def chain_eq init_def chain_net_def)
  have h7: "[0::nat] \<noteq> []" "[1::nat, 2, 3, 4] \<noteq> []" "distinct [0::nat]"
    "distinct [1::nat, 2, 3, 4]" "set [0::nat] \<inter> set [1, 2, 3, 4] = {}"
    by simp_all
  show ?thesis
    using rate_group_conservation[OF h1 h2 h3 h4 h5 h7(1) h7(2) h7(3) h7(4) h6 h7(5)]
      h1 h2 h3 h4 h5 h6 h7
    by blast
qed

text \<open>
  The claim as stated, for every pore set: with \<open>X\<close> all five pores of the chain
  the group rate is 0, and the complement is empty, for which \<^verbatim>\<open>rate\<close> raises
  'Must specify either pores or throats' instead of returning \<open>- 0\<close>.
\<close>

theorem rate_complement_of_all_raises:
  "rate [0, 1, 2, 3, 4] [] Group chain_solved = Inr [0]
   \<and> rate [] [] Group chain_solved = Inl NeitherGiven"
  by code_simp

section \<open>Building and reading the working copies\<close>

lemma get_b_built: "priv_b s = Some b \<Longrightarrow> get_b s = (b, s)"
  by (simp add: get_b_def)

lemma get_A_built: "priv_A s = Some A \<Longrightarrow> get_A s = (Inr A, s)"
  by (simp add: get_A_def)

lemma get_b_frame:
  assumes "get_b s = (b, s1)"
  shows "priv_b s1 = Some b \<and> quantity s1 = quantity s \<and> sets s1 = sets s \<and> net s1 = net s
         \<and> g s1 = g s \<and> bc_value s1 = bc_value s \<and> bc_rate s1 = bc_rate s
         \<and> priv_A s1 = priv_A s \<and> pure_A s1 = pure_A s"
  using assms
  by (auto simp: get_b_def build_b_def Let_def split: option.splits if_splits)

lemma get_A_frame:
  assumes "get_A s = (r, s1)"
  shows "quantity s1 = quantity s \<and> sets s1 = sets s \<and> net s1 = net s
         \<and> g s1 = g s \<and> bc_value s1 = bc_value s \<and> bc_rate s1 = bc_rate s
         \<and> priv_b s1 = priv_b s \<and> pure_b s1 = pure_b s
         \<and> (\<forall>A. r = Inr A \<longrightarrow> priv_A s1 = Some A)"
  using assms
  by (auto simp: get_A_def build_A_def Let_def split: option.splits if_splits)

lemma length_mask_set: "length (mask_set b vals) = min (length b) (length vals)"
  by (simp add: mask_set_def)

lemma shape_setdiag: "shape (setdiag vals A) = shape A"
  by (simp add: setdiag_def Let_def)

lemma shape_eliminate_zeros: "shape (eliminate_zeros A) = shape A"
  by (simp add: eliminate_zeros_def)

lemma apply_BCs_None:
  assumes "apply_BCs s = (None, s1)"
  shows "\<exists>A b. priv_A s1 = Some A \<and> priv_b s1 = Some b \<and> shape A = length b
           \<and> quantity s1 = quantity s \<and> sets s1 = sets s \<and> net s1 = net s \<and> g s1 = g s
           \<and> bc_value s1 = bc_value s \<and> bc_rate s1 = bc_rate s"
proof -
  obtain b0 sa where gb: "get_b s = (b0, sa)" by (cases "get_b s")
  note fb = get_b_frame[OF gb]
  let ?b1 = "mask_set b0 (bc_rate sa)"
  let ?s2 = "sa\<lparr>priv_b := Some ?b1\<rparr>"
  obtain r sb where ga: "get_A ?s2 = (r, sb)" by (cases "get_A ?s2")
  note fa = get_A_frame[OF ga]
  have len: "length (bc_rate sa) = length b0"
    using assms gb by (auto simp: apply_BCs_def split: if_splits)
  obtain A0 where r: "r = Inr A0"
    using assms gb ga len by (cases r) (auto simp: apply_BCs_def Let_def)
  have c2: "length (bc_value sb) = length ?b1"
    using assms gb ga len r by (auto simp: apply_BCs_def Let_def split: if_splits)
  have c3: "shape A0 = length (bc_value sb)"
    using assms gb ga len r c2 by (auto simp: apply_BCs_def Let_def split: if_splits)
  show ?thesis
    using assms gb ga len r c2 c3 fa fb
    by (auto simp: apply_BCs_def Let_def shape_setdiag shape_eliminate_zeros length_mask_set)
qed

section \<open>The symmetry check of the solver dispatcher\<close>

lemma cg_alg_apply: "apply_BCs cg_alg = (None, cg_alg_applied)"
  by code_simp

lemma solve_cg:
  assumes cg: "solver_type (sets s) = ''cg''"
    and A: "priv_A s = Some A" and b: "priv_b s = Some b"
    and sh: "shape A = length b" "length x0 = length b"
    and ns: "\<not> is_symmetric ev A"
  shows "solve ev x0 s = (Inl CGNotSymmetric, s)"
proof -
  obtain rtol where "get_rtol (sets s) A b x0 = Inr rtol"
    using sh by (cases "solver_rtol (sets s)") (simp_all add: get_rtol_def get_residual_def)
  then show ?thesis
    using cg ns by (simp add: solve_def get_A_built[OF A] get_b_built[OF b] Let_def)
qed


text \<open>
  Claim C8. With the solver type \<^verbatim>\<open>cg\<close> configured: (1) \<^verbatim>\<open>_solve\<close> on an
  assembled system (a working matrix \<open>A\<close> and vector \<open>b\<close> of the same dimension)
  whose matrix \<^verbatim>\<open>is_symmetric\<close> rejects returns the exception 'CG solver only
  works on symmetric matrices.' and leaves the object as it was; (2) \<^verbatim>\<open>run\<close>,
  when the boundary conditions apply without an exception and the assembled
  matrix is rejected, ends with that exception, the object being the one the
  assembly left, with the stored quantity unchanged (none, if none was stored).
  The result does not mention a backend of the environment: none is called.
\<close>

theorem cg_needs_symmetric:
  assumes cg: "solver_type (sets s) = ''cg''"
  shows "(priv_A s = Some A \<and> priv_b s = Some b \<and> shape A = length b \<and> length x0 = length b
            \<and> \<not> is_symmetric ev A \<longrightarrow>
          solve ev x0 s = (Inl CGNotSymmetric, s))
       \<and> (apply_BCs s = (None, s1) \<and> priv_A s1 = Some A1 \<and> \<not> is_symmetric ev A1 \<longrightarrow>
          run ev x0opt s = (Some CGNotSymmetric, s1) \<and> quantity s1 = quantity s)"
proof (intro conjI impI)
  assume "priv_A s = Some A \<and> priv_b s = Some b \<and> shape A = length b \<and> length x0 = length b
            \<and> \<not> is_symmetric ev A"
  then show "solve ev x0 s = (Inl CGNotSymmetric, s)"
    using solve_cg[OF cg] by blast
next
  assume h: "apply_BCs s = (None, s1) \<and> priv_A s1 = Some A1 \<and> \<not> is_symmetric ev A1"
  then obtain A' b where f: "priv_A s1 = Some A'" "priv_b s1 = Some b" "shape A' = length b"
    "quantity s1 = quantity s" "sets s1 = sets s"
    using apply_BCs_None[of s s1] by blast
  have A1: "A' = A1" using f(1) h by simp
  have cg1: "solver_type (sets s1) = ''cg''" using cg f(5) by simp
  have "solve ev (replicate (length b) 0) s1 = (Inl CGNotSymmetric, s1)"
    using solve_cg[OF cg1 _ f(2), of A1 "replicate (length b) 0" ev] f(1,3) A1 h by simp
  then have "run ev x0opt s = (Some CGNotSymmetric, s1)"
    using h by (simp add: run_def run_generic_def get_b_built[OF f(2)])
  then show "run ev x0opt s = (Some CGNotSymmetric, s1)" and "quantity s1 = quantity s"
    using f(4) by simp_all
qed

theorem cg_needs_symmetric_witness:
  "solver_type (sets cg_alg) = ''cg''
   \<and> priv_A cg_alg_applied = Some \<lparr>shape = 2, triples = [(0, 1, 1)]\<rparr>
   \<and> priv_b cg_alg_applied = Some [0, 0]
   \<and> shape \<lparr>shape = 2, triples = [(0, 1, 1)]\<rparr> = length [0::real, 0]
   \<and> \<not> is_symmetric (direct_env (\<lambda>A b. b)) \<lparr>shape = 2, triples = [(0, 1, 1)]\<rparr>
   \<and> apply_BCs cg_alg = (None, cg_alg_applied)
   \<and> solve (direct_env (\<lambda>A b. b)) [0, 0] cg_alg_applied = (Inl CGNotSymmetric, cg_alg_applied)
   \<and> run (direct_env (\<lambda>A b. b)) None cg_alg = (Some CGNotSymmetric, cg_alg_applied)
   \<and> quantity cg_alg_applied = None"
proof -
  let ?A = "\<lparr>shape = 2, triples = [(0, 1, 1 :: real)]\<rparr>"
  let ?ev = "direct_env (\<lambda>A b. b)"
  have cg: "solver_type (sets cg_alg) = ''cg''"
    by (simp add: cg_alg_def def_set_def)
  have cg': "solver_type (sets cg_alg_applied) = ''cg''"
    by (simp add: cg_alg_applied_def cg_alg_def def_set_def)
  have a: "priv_A cg_alg_applied = Some ?A" "priv_b cg_alg_applied = Some [0, 0]"
    "quantity cg_alg_applied = None"
    by (simp_all add: cg_alg_applied_def cg_alg_def init_def)
  have ns: "\<not> is_symmetric ?ev ?A"
    by (simp add: direct_env_def sym_exact_def entry_def sum_at_def numeral_eq_Suc)
  have sh: "shape ?A = length [0::real, 0]" by simp
  show ?thesis
    using cg_needs_symmetric[OF cg', of ?A "[0, 0]" "[0, 0]" ?ev cg_alg_applied ?A None]
      cg_needs_symmetric[OF cg, of ?A "[0, 0]" "[0, 0]" ?ev cg_alg_applied ?A None]
      cg a ns sh cg_alg_apply
    by simp
qed

section \<open>Entries of coordinate matrices\<close>

lemma sum_at_Nil: "sum_at [] i j = 0"
  by (simp add: sum_at_def)

lemma sum_at_Cons:
  "sum_at ((r, c, d) # ts) i j = (if r = i \<and> c = j then d else 0) + sum_at ts i j"
  by (simp add: sum_at_def)

lemma sum_at_append: "sum_at (xs @ ys) i j = sum_at xs i j + sum_at ys i j"
  by (simp add: sum_at_def)

lemma sum_at_zero_rows:
  "sum_at (map (\<lambda>(r, c, d). (r, c, if P r then 0 else d)) ts) i j
     = (if P i then 0 else sum_at ts i j)"
  by (induction ts) (auto simp: sum_at_Nil sum_at_Cons)

lemma sum_at_zero_cols:
  "sum_at (map (\<lambda>(r, c, d). (r, c, if P c then 0 else d)) ts) i j
     = (if P j then 0 else sum_at ts i j)"
  by (induction ts) (auto simp: sum_at_Nil sum_at_Cons)


lemma sum_at_nonzero:
  "sum_at (filter (\<lambda>(r, c, d). d \<noteq> 0) ts) i j = sum_at ts i j"
  by (induction ts) (auto simp: sum_at_Nil sum_at_Cons)

lemma sum_at_new_diag:
  "sum_at (map (\<lambda>k. (k, k, f k)) [0..<n]) i j = (if i = j \<and> i < n then f i else 0)"
  by (induction n) (auto simp: sum_at_Nil sum_at_Cons sum_at_append)

lemma sum_at_drop_diag:
  "sum_at (filter (\<lambda>(r, c, d). c \<noteq> r \<or> n \<le> r) ts) i j
     = (if i = j \<and> i < n then 0 else sum_at ts i j)"
  by (induction ts) (auto simp: sum_at_Nil sum_at_Cons)

lemma entry_setdiag:
  "entry (setdiag vals A) i j
     = (if i = j \<and> i < min (shape A) (length vals) then vals ! i else entry A i j)"
proof -
  let ?n = "min (shape A) (length vals)"
  have "triples (setdiag vals A)
          = filter (\<lambda>(r, c, d). c \<noteq> r \<or> ?n \<le> r) (triples A)
            @ map (\<lambda>k. (k, k, vals ! k)) [0..<?n]"
    by (simp add: setdiag_def Let_def)
  then have "entry (setdiag vals A) i j
          = sum_at (filter (\<lambda>(r, c, d). c \<noteq> r \<or> ?n \<le> r) (triples A)) i j
            + sum_at (map (\<lambda>k. (k, k, vals ! k)) [0..<?n]) i j"
    by (simp only: entry_def sum_at_append)
  also have "\<dots> = (if i = j \<and> i < ?n then 0 else sum_at (triples A) i j)
                   + (if i = j \<and> i < ?n then vals ! i else 0)"
    by (simp only: sum_at_drop_diag sum_at_new_diag)
  finally show ?thesis by (simp add: entry_def)
qed

lemma entry_eliminate_zeros: "entry (eliminate_zeros A) i j = entry A i j"
  by (simp add: entry_def eliminate_zeros_def sum_at_nonzero)

lemma rowdot_sum:
  fixes x :: "real list"
  assumes "list_all (\<lambda>(r, c, d). r < n \<and> c < n) ts"
  shows "sum_list (map (\<lambda>(r, c, d). d * x ! c) (filter (\<lambda>(r, c, d). r = k) ts))
           = (\<Sum>j<n. sum_at ts k j * x ! j)"
  using assms
proof (induction ts)
  case Nil
  then show ?case by (simp add: sum_at_Nil)
next
  case (Cons t ts)
  obtain r c d where t: "t = (r, c, d)" by (cases t)
  have c: "c < n" using Cons.prems t by simp
  have tl: "list_all (\<lambda>(r, c, d). r < n \<and> c < n) ts" using Cons.prems by simp
  have IH: "sum_list (map (\<lambda>(r, c, d). d * x ! c) (filter (\<lambda>(r, c, d). r = k) ts))
           = (\<Sum>j<n. sum_at ts k j * x ! j)"
    by (rule Cons.IH[OF tl])
  have delta: "(\<Sum>j<n. (if r = k \<and> c = j then d else 0) * x ! j) = (if r = k then d * x ! c else 0)"
  proof (cases "r = k")
    case True
    have "(\<Sum>j<n. (if c = j then d else 0) * x ! j) = (\<Sum>j\<in>{..<n}. if c = j then d * x ! j else 0)"
      by (rule sum.cong) auto
    also have "\<dots> = d * x ! c" using c by (simp add: sum.delta')
    finally show ?thesis using True by simp
  next
    case False
    then show ?thesis by simp
  qed
  have rhs: "(\<Sum>j<n. sum_at (t # ts) k j * x ! j)
          = (\<Sum>j<n. (if r = k \<and> c = j then d else 0) * x ! j) + (\<Sum>j<n. sum_at ts k j * x ! j)"
    by (simp add: t sum_at_Cons distrib_right sum.distrib)
  have lhs: "sum_list (map (\<lambda>(r, c, d). d * x ! c) (filter (\<lambda>(r, c, d). r = k) (t # ts)))
          = (if r = k then d * x ! c else 0)
            + sum_list (map (\<lambda>(r, c, d). d * x ! c) (filter (\<lambda>(r, c, d). r = k) ts))"
    unfolding t by simp
  show ?case by (simp only: lhs rhs IH delta)
qed

lemma matvec_nth:
  assumes "wf_coo A" "k < shape A"
  shows "matvec A x ! k = (\<Sum>j<shape A. entry A k j * x ! j)"
  using rowdot_sum[of "shape A" "triples A" x k] assms
  by (simp add: matvec_def wf_coo_def entry_def)

lemma length_matvec: "length (matvec A x) = shape A"
  by (simp add: matvec_def)

lemma set_toindices: "set (toindices msk) = {i. i < length msk \<and> msk ! i}"
proof -
  have "toindices msk = filter (\<lambda>i. msk ! i) [0..<length msk]"
    using mask_select_upt[of msk "length msk" "\<lambda>x. x"] by (simp add: toindices_def)
  then show ?thesis by auto
qed

lemma mask_set_nth:
  "k < length b \<Longrightarrow> k < length vals \<Longrightarrow>
     mask_set b vals ! k = (case vals ! k of Some x \<Rightarrow> x | None \<Rightarrow> b ! k)"
  by (simp add: mask_set_def)

lemma elim_entry:
  fixes A :: coo_matrix and S :: "nat set" and f :: real
  defines "A1 \<equiv> A\<lparr>triples := map (\<lambda>(r, c, d). (r, c, if r \<in> S then 0 else d)) (triples A)\<rparr>"
  defines "A2 \<equiv> A1\<lparr>triples := map (\<lambda>(r, c, d). (r, c, if c \<in> S then 0 else d)) (triples A1)\<rparr>"
  defines "dd \<equiv> map (\<lambda>i. if i \<in> S then f else diagonal A2 ! i) [0..<length (diagonal A2)]"
  shows "entry (eliminate_zeros (setdiag dd A2)) i j
           = (if i = j \<and> i < shape A \<and> i \<in> S then f
              else if i \<in> S \<or> j \<in> S then 0 else entry A i j)"
    and "shape (eliminate_zeros (setdiag dd A2)) = shape A"
proof -
  have t2: "triples A2 = map (\<lambda>(r, c, d). (r, c, if c \<in> S then 0 else d))
                          (map (\<lambda>(r, c, d). (r, c, if r \<in> S then 0 else d)) (triples A))"
    by (simp add: A2_def A1_def)
  have e2: "entry A2 i j = (if i \<in> S \<or> j \<in> S then 0 else entry A i j)" for i j
    by (simp only: entry_def t2 sum_at_zero_cols sum_at_zero_rows) simp
  have sh2: "shape A2 = shape A" by (simp add: A2_def A1_def)
  have ldd: "length dd = shape A" by (simp add: dd_def diagonal_def sh2)
  have dd: "dd ! i = (if i \<in> S then f else entry A i i)" if "i < shape A" for i
    using that by (simp add: dd_def diagonal_def sh2 e2)
  have "entry (eliminate_zeros (setdiag dd A2)) i j
          = (if i = j \<and> i < shape A then dd ! i else entry A2 i j)"
    by (simp add: entry_eliminate_zeros entry_setdiag sh2 ldd)
  then show "entry (eliminate_zeros (setdiag dd A2)) i j
           = (if i = j \<and> i < shape A \<and> i \<in> S then f
              else if i \<in> S \<or> j \<in> S then 0 else entry A i j)"
    using dd[of i] e2[of i j] by auto
  show "shape (eliminate_zeros (setdiag dd A2)) = shape A"
    by (simp add: shape_eliminate_zeros shape_setdiag sh2)
qed

section \<open>The chain, built and assembled\<close>

lemma chain_build: "get_A (snd (get_b chain)) = (Inr chain_A, chain_built)"
  by code_simp

lemma chain_apply: "apply_BCs chain = (None, chain_applied)"
  by code_simp

lemma chain_built_apply: "apply_BCs chain_built = (None, chain_applied)"
  by code_simp


section \<open>Applying value boundary conditions\<close>

text \<open>
  Claim C1. Let the object hold a working matrix \<open>A\<close> (indices within its shape
  \<open>N\<close>) and a working vector \<open>b\<close>, both boundary-condition arrays having \<open>N\<close>
  entries, and let \<open>f\<close> be the mean of the diagonal of \<open>A\<close> as it is before the
  call. Then \<^verbatim>\<open>_apply_BCs\<close> raises nothing, changes only the working copies,
  and afterwards: for every node \<open>i\<close> with a finite value \<open>v\<close>, the entry
  \<open>(i, i)\<close> is \<open>f\<close>, every other entry of row \<open>i\<close> and of column \<open>i\<close> is zero, and
  \<open>b[i] = v * f\<close>; for every node \<open>k\<close> without a value, \<open>b[k]\<close> is its content
  after the rate step (the rate of \<open>k\<close>, if it has one, else the old \<open>b[k]\<close>)
  less the sum over \<open>j\<close> of \<open>A[k,j] * x_BC[j]\<close>, with \<open>x_BC[j]\<close> the value at \<open>j\<close> or
  zero; and the entries between two nodes without a value are unchanged.
\<close>

theorem apply_BCs_value:
  assumes A: "priv_A s = Some A" and b: "priv_b s = Some b" and wf: "wf_coo A"
    and dims: "shape A = N" "length b = N" "length (bc_value s) = N" "length (bc_rate s) = N"
  shows "\<exists>A' b'.
      apply_BCs s = (None, s\<lparr>priv_b := Some b', priv_A := Some A'\<rparr>)
      \<and> shape A' = N \<and> length b' = N
      \<and> (\<forall>i < N. \<forall>v. bc_value s ! i = Some v \<longrightarrow>
            entry A' i i = mean (diagonal A)
            \<and> (\<forall>j. j \<noteq> i \<longrightarrow> entry A' i j = 0 \<and> entry A' j i = 0)
            \<and> b' ! i = v * mean (diagonal A))
      \<and> (\<forall>k < N. bc_value s ! k = None \<longrightarrow>
            b' ! k = (case bc_rate s ! k of Some r \<Rightarrow> r | None \<Rightarrow> b ! k)
                     - (\<Sum>j < N. entry A k j * (case bc_value s ! j of Some v \<Rightarrow> v | None \<Rightarrow> 0))
            \<and> (\<forall>j < N. bc_value s ! j = None \<longrightarrow> entry A' k j = entry A k j))"
proof -
  define f where "f = mean (diagonal A)"
  define b1 where "b1 = mask_set b (bc_rate s)"
  define ind where "ind = map isfinite (bc_value s)"
  define b2 where "b2 = mask_set b1 (map (map_option (\<lambda>x. x * f)) (bc_value s))"
  define x_BC where "x_BC = map (\<lambda>v. case v of Some x \<Rightarrow> x | None \<Rightarrow> (0::real)) (bc_value s)"
  define b3 where "b3 = map (\<lambda>k. if ind ! k then b2 ! k else b2 ! k - matvec A x_BC ! k)
                          [0..<length b2]"
  define S where "S = set (toindices ind)"
  define A1 where "A1 = A\<lparr>triples := map (\<lambda>(r, c, d). (r, c, if r \<in> S then 0 else d)) (triples A)\<rparr>"
  define A2 where "A2 = A1\<lparr>triples := map (\<lambda>(r, c, d). (r, c, if c \<in> S then 0 else d)) (triples A1)\<rparr>"
  define dd where "dd = map (\<lambda>i. if i \<in> S then f else diagonal A2 ! i) [0..<length (diagonal A2)]"
  define A4 where "A4 = eliminate_zeros (setdiag dd A2)"
  have lb1: "length b1 = N" by (simp add: b1_def length_mask_set dims)
  have lb2: "length b2 = N" by (simp add: b2_def length_mask_set dims lb1)
  have lb3: "length b3 = N" by (simp add: b3_def lb2)
  have lx: "length x_BC = N" by (simp add: x_BC_def dims)
  have A': "priv_A (s\<lparr>priv_b := Some b1\<rparr>) = Some A" using A by simp
  have run: "apply_BCs s = (None, s\<lparr>priv_b := Some b3, priv_A := Some A4\<rparr>)"
    unfolding A4_def dd_def A2_def A1_def S_def b3_def
    using dims lb1 lx
    by (simp add: apply_BCs_def get_b_built[OF b] get_A_built[OF A'] Let_def
        b1_def[symmetric] f_def[symmetric] ind_def[symmetric] b2_def[symmetric]
        x_BC_def[symmetric])
  have S: "i \<in> S \<longleftrightarrow> i < N \<and> bc_value s ! i \<noteq> None" for i
    by (auto simp: S_def set_toindices ind_def dims isfinite_def)
  have ent: "entry A4 i j = (if i = j \<and> i < shape A \<and> i \<in> S then f
              else if i \<in> S \<or> j \<in> S then 0 else entry A i j)" for i j
    unfolding A4_def dd_def A2_def A1_def by (rule elim_entry(1))
  have sh: "shape A4 = N"
    unfolding A4_def dd_def A2_def A1_def using elim_entry(2)[of S f A] dims by simp
  have b1n: "b1 ! k = (case bc_rate s ! k of Some r \<Rightarrow> r | None \<Rightarrow> b ! k)" if "k < N" for k
    using that by (simp add: b1_def mask_set_nth dims)
  have b2n: "b2 ! k = (case bc_value s ! k of Some v \<Rightarrow> v * f | None \<Rightarrow> b1 ! k)" if "k < N" for k
    using that by (cases "bc_value s ! k") (simp_all add: b2_def mask_set_nth dims lb1)
  have ax: "matvec A x_BC ! k
      = (\<Sum>j < N. entry A k j * (case bc_value s ! j of Some v \<Rightarrow> v | None \<Rightarrow> 0))" if "k < N" for k
  proof -
    have "matvec A x_BC ! k = (\<Sum>j < N. entry A k j * x_BC ! j)"
      using matvec_nth[OF wf, of k x_BC] that dims by simp
    also have "\<dots> = (\<Sum>j < N. entry A k j * (case bc_value s ! j of Some v \<Rightarrow> v | None \<Rightarrow> 0))"
      by (rule sum.cong) (simp_all add: x_BC_def dims)
    finally show ?thesis .
  qed
  have b3n: "b3 ! k = (if bc_value s ! k \<noteq> None then b2 ! k else b2 ! k - matvec A x_BC ! k)"
    if "k < N" for k
    using that by (simp add: b3_def lb2 ind_def dims isfinite_def)
  have part1: "entry A4 i i = f \<and> (\<forall>j. j \<noteq> i \<longrightarrow> entry A4 i j = 0 \<and> entry A4 j i = 0)
                 \<and> b3 ! i = v * f"
    if "i < N" "bc_value s ! i = Some v" for i v
    using that S[of i] ent b3n[of i] b2n[of i] dims by auto
  have part2: "b3 ! k = (case bc_rate s ! k of Some r \<Rightarrow> r | None \<Rightarrow> b ! k)
                     - (\<Sum>j < N. entry A k j * (case bc_value s ! j of Some v \<Rightarrow> v | None \<Rightarrow> 0))
            \<and> (\<forall>j < N. bc_value s ! j = None \<longrightarrow> entry A4 k j = entry A k j)"
    if "k < N" "bc_value s ! k = None" for k
    using that S ent b3n[of k] b2n[of k] b1n[of k] ax[of k] by auto
  show ?thesis
    using run sh lb3 part1 part2 unfolding f_def by blast
qed

theorem apply_BCs_value_witness:
  "priv_A chain_built = Some chain_A \<and> priv_b chain_built = Some [0, 0, 0, 0, 0]
   \<and> wf_coo chain_A \<and> shape chain_A = 5 \<and> length [0::real, 0, 0, 0, 0] = 5
   \<and> length (bc_value chain_built) = 5 \<and> length (bc_rate chain_built) = 5
   \<and> bc_value chain_built = [Some 1, None, None, None, Some 0]
   \<and> mean (diagonal chain_A) = 8 / 5
   \<and> apply_BCs chain_built = (None, chain_applied)
   \<and> (\<exists>A' b'.
      apply_BCs chain_built = (None, chain_built\<lparr>priv_b := Some b', priv_A := Some A'\<rparr>)
      \<and> shape A' = 5 \<and> length b' = 5
      \<and> (\<forall>i < 5. \<forall>v. bc_value chain_built ! i = Some v \<longrightarrow>
            entry A' i i = mean (diagonal chain_A)
            \<and> (\<forall>j. j \<noteq> i \<longrightarrow> entry A' i j = 0 \<and> entry A' j i = 0)
            \<and> b' ! i = v * mean (diagonal chain_A))
      \<and> (\<forall>k < 5. bc_value chain_built ! k = None \<longrightarrow>
            b' ! k = (case bc_rate chain_built ! k of Some r \<Rightarrow> r | None \<Rightarrow> [0, 0, 0, 0, 0] ! k)
                     - (\<Sum>j < 5. entry chain_A k j
                          * (case bc_value chain_built ! j of Some v \<Rightarrow> v | None \<Rightarrow> 0))
            \<and> (\<forall>j < 5. bc_value chain_built ! j = None \<longrightarrow> entry A' k j = entry chain_A k j)))"
proof -
  have h1: "priv_A chain_built = Some chain_A" by (simp add: chain_built_def)
  have h2: "priv_b chain_built = Some [0, 0, 0, 0, 0]" by (simp add: chain_built_def)
  have h3: "wf_coo chain_A" by (simp add: wf_coo_def chain_A_def)
  have h4: "shape chain_A = 5" by (simp add: chain_A_def)
  have h5: "length [0::real, 0, 0, 0, 0] = 5" by simp
  have bv: "bc_value chain_built = [Some 1, None, None, None, Some 0]"
    by (simp add: chain_built_def chain_eq)
  have h6: "length (bc_value chain_built) = 5" by (simp add: bv)
  have h7: "length (bc_rate chain_built) = 5"
    by (simp add: chain_built_def chain_eq init_def chain_net_def)
  have m: "mean (diagonal chain_A) = 8 / 5" by code_simp
  note inst = apply_BCs_value[OF h1 h2 h3 h4 h5 h6 h7]
  show ?thesis
    by (intro conjI h1 h2 h3 h4 h5 h6 h7 bv m chain_built_apply inst)
qed

section \<open>The five-pore chain\<close>

lemma chain_system_unique:
  assumes len: "length x = 5" and sol: "matvec chain_A_bc x = chain_b_bc"
  shows "x = chain_x"
proof -
  obtain a b c d e where x: "x = [a, b, c, d, e]"
    using len by (auto simp: length_Suc_conv numeral_eq_Suc)
  have "matvec chain_A_bc [a, b, c, d, e]
          = [8 / 5 * a, 2 * b - c, 2 * c - b - d, 2 * d - c, 8 / 5 * e]"
    by (simp add: matvec_def chain_A_bc_def numeral_eq_Suc)
  then have "8 / 5 * a = 8 / 5" "2 * b - c = 1" "2 * c - b - d = 0" "2 * d - c = 0" "8 / 5 * e = 0"
    using sol x by (simp_all add: chain_b_bc_def)
  then have "a = 1" "b = 3 / 4" "c = 1 / 2" "d = 1 / 4" "e = 0"
    by simp_all
  then show ?thesis by (simp add: x chain_x_def)
qed

lemma chain_x_solves: "length chain_x = 5 \<and> matvec chain_A_bc chain_x = chain_b_bc"
  by (simp add: matvec_def chain_A_bc_def chain_b_bc_def chain_x_def numeral_eq_Suc)

lemma chain_applied_fields:
  "priv_A chain_applied = Some chain_A_bc" "priv_b chain_applied = Some chain_b_bc"
  "sets chain_applied = def_set"
  by (simp_all add: chain_applied_def chain_built_def chain_eq init_def)

lemma chain_run:
  assumes f: "scipy_other ev ''spsolve'' = Some f"
  shows "run ev x0 chain
           = (None, chain_applied\<lparr>quantity := Some (f chain_A_bc chain_b_bc)\<rparr>)"
proof -
  have rt: "\<exists>rtol. get_rtol def_set chain_A_bc chain_b_bc (replicate (length chain_b_bc) 0) = Inr rtol"
    by (simp add: get_rtol_def get_residual_def def_set_def chain_A_bc_def chain_b_bc_def)
  then obtain rtol where rtol:
    "get_rtol def_set chain_A_bc chain_b_bc (replicate (length chain_b_bc) 0) = Inr rtol" ..
  have "solve ev (replicate (length chain_b_bc) 0) chain_applied
          = (Inr (f chain_A_bc chain_b_bc), chain_applied)"
    using f rtol
    by (simp add: solve_def get_A_built[OF chain_applied_fields(1)]
        get_b_built[OF chain_applied_fields(2)] chain_applied_fields(3) Let_def)
       (simp add: def_set_def iterative_def)
  then show ?thesis
    by (simp add: run_def run_generic_def chain_apply get_b_built[OF chain_applied_fields(2)])
qed

lemma chain_rate: "rate [0] [] Group (chain_applied\<lparr>quantity := Some chain_x\<rparr>) = Inr [1 / 4]"
  by code_simp


text \<open>
  Claim C6, as amended. For the chain of five pores with unit conductance on
  its four throats, the value 1 at pore 0 and the value 0 at pore 4, and the
  default direct solver: whenever the backend answers the assembled system
  with a solution of it, \<^verbatim>\<open>run\<close> stores the field \<open>[1, 3/4, 1/2, 1/4, 0]\<close> (the
  assembled system has no other solution), and \<^verbatim>\<open>rate(pores=[0])\<close> then returns
  \<open>1/4\<close>: four unit conductances in series carry a quarter of the unit
  difference.
\<close>

theorem chain_solution:
  assumes "scipy_other ev ''spsolve'' = Some f"
    and "length (f chain_A_bc chain_b_bc) = 5"
    and "matvec chain_A_bc (f chain_A_bc chain_b_bc) = chain_b_bc"
  shows "\<exists>s'. run ev x0 chain = (None, s')
            \<and> quantity s' = Some [1, 3 / 4, 1 / 2, 1 / 4, 0]
            \<and> rate [0] [] Group s' = Inr [1 / 4]"
proof -
  have "f chain_A_bc chain_b_bc = chain_x"
    using chain_system_unique[OF assms(2,3)] .
  then have "run ev x0 chain = (None, chain_applied\<lparr>quantity := Some chain_x\<rparr>)"
    using chain_run[OF assms(1)] by simp
  then show ?thesis using chain_rate by (simp add: chain_x_def)
qed

theorem chain_solution_witness:
  "scipy_other (direct_env (\<lambda>A b. chain_x)) ''spsolve'' = Some (\<lambda>A b. chain_x)
   \<and> length chain_x = 5
   \<and> matvec chain_A_bc chain_x = chain_b_bc
   \<and> (\<exists>s'. run (direct_env (\<lambda>A b. chain_x)) None chain = (None, s')
            \<and> quantity s' = Some [1, 3 / 4, 1 / 2, 1 / 4, 0]
            \<and> rate [0] [] Group s' = Inr [1 / 4])"
proof -
  have h1: "scipy_other (direct_env (\<lambda>A b. chain_x)) ''spsolve'' = Some (\<lambda>A b. chain_x)"
    by (simp add: direct_env_def)
  have h2: "length chain_x = 5" and h3: "matvec chain_A_bc chain_x = chain_b_bc"
    using chain_x_solves by simp_all
  show ?thesis
    using chain_solution[OF h1 h2 h3, of None] h1 h2 h3 by blast
qed


text \<open>
  The claim as stated has the rate 1: with a backend that returns the solution
  of the assembled system, the run stores the interpolated field and the rate
  at pore 0 is \<open>1/4\<close>, not 1.
\<close>

theorem chain_rate_is_quarter:
  "run (direct_env (\<lambda>A b. chain_x)) None chain
     = (None, chain_applied\<lparr>quantity := Some chain_x\<rparr>)
   \<and> matvec chain_A_bc chain_x = chain_b_bc
   \<and> chain_x = [1, 3 / 4, 1 / 2, 1 / 4, 0]
   \<and> rate [0] [] Group (chain_applied\<lparr>quantity := Some chain_x\<rparr>) = Inr [1 / 4]
   \<and> rate [0] [] Group (chain_applied\<lparr>quantity := Some chain_x\<rparr>) \<noteq> Inr [1]"
proof -
  have "scipy_other (direct_env (\<lambda>A b. chain_x)) ''spsolve'' = Some (\<lambda>A b. chain_x)"
    by (simp add: direct_env_def)
  then have "run (direct_env (\<lambda>A b. chain_x)) None chain
     = (None, chain_applied\<lparr>quantity := Some chain_x\<rparr>)"
    by (rule chain_run)
  then show ?thesis
    using chain_x_solves chain_rate by (simp add: chain_x_def)
qed

section \<open>The pure system matrix\<close>















section \<open>Repeated runs and the cache\<close>

text \<open>
  With caching enabled, \<^verbatim>\<open>run\<close> leaves the cached pure matrix and vector as
  they are: the boundary conditions are applied to the working copies only.
\<close>

lemma get_b_cached: "cached P pb s \<Longrightarrow> get_b s = (b, s1) \<Longrightarrow> cached P pb s1"
  by (auto simp: cached_def get_b_def build_b_def Let_def split: option.splits)

lemma get_A_cached: "cached P pb s \<Longrightarrow> get_A s = (r, s1) \<Longrightarrow> cached P pb s1"
  by (auto simp: cached_def get_A_def build_A_def Let_def split: option.splits)

lemma cached_upd:
  "cached P pb (s\<lparr>priv_b := x\<rparr>) = cached P pb s"
  "cached P pb (s\<lparr>priv_A := y\<rparr>) = cached P pb s"
  "cached P pb (s\<lparr>quantity := z\<rparr>) = cached P pb s"
  by (simp_all add: cached_def)

lemma apply_BCs_cached:
  assumes "cached P pb s" "apply_BCs s = (e, s1)"
  shows "cached P pb s1"
proof -
  obtain b0 sa where gb: "get_b s = (b0, sa)" by (cases "get_b s")
  have ca: "cached P pb sa" using get_b_cached[OF assms(1) gb] .
  let ?s2 = "sa\<lparr>priv_b := Some (mask_set b0 (bc_rate sa))\<rparr>"
  obtain r sb where ga: "get_A ?s2 = (r, sb)" by (cases "get_A ?s2")
  have cb: "cached P pb sb" using get_A_cached[OF _ ga] ca by (simp add: cached_upd)
  show ?thesis
    using assms(2) gb ga ca cb
    by (cases r) (auto simp: apply_BCs_def Let_def cached_upd split: if_splits)
qed

lemma solve_cached:
  assumes "cached P pb s" "solve ev x0 s = (r, s1)"
  shows "cached P pb s1"
proof -
  obtain ra sa where ga: "get_A s = (ra, sa)" by (cases "get_A s")
  have ca: "cached P pb sa" using get_A_cached[OF assms(1) ga] .
  obtain b sb where gb: "get_b sa = (b, sb)" by (cases "get_b sa")
  have cb: "cached P pb sb" using get_b_cached[OF ca gb] .
  show ?thesis
  proof (cases ra)
    case (Inl e)
    then show ?thesis using assms(2) ga ca by (simp add: solve_def)
  next
    case (Inr A)
    have "s1 = sb"
      using assms(2) ga gb Inr
      by (auto simp: solve_def Let_def split: sum.splits if_splits prod.splits option.splits)
    then show ?thesis using cb by simp
  qed
qed

lemma run_keeps_pure_cache:
  assumes "cached P pb s" "run ev x0 s = (e, s')"
  shows "cached P pb s'"
proof -
  obtain e1 s1 where ab: "apply_BCs s = (e1, s1)" by (cases "apply_BCs s")
  have c1: "cached P pb s1" using apply_BCs_cached[OF assms(1) ab] .
  show ?thesis
  proof (cases e1)
    case (Some err)
    then show ?thesis using assms(2) ab c1 by (simp add: run_def run_generic_def)
  next
    case None
    obtain b s2 where gb: "get_b s1 = (b, s2)" by (cases "get_b s1")
    have c2: "cached P pb s2" using get_b_cached[OF c1 gb] .
    obtain r s3 where sv: "solve ev (replicate (length b) 0) s2 = (r, s3)"
      by (cases "solve ev (replicate (length b) 0) s2")
    have c3: "cached P pb s3" using solve_cached[OF c2 sv] .
    show ?thesis
      using assms(2) ab None gb sv c3
      by (cases r) (auto simp: run_def run_generic_def cached_upd)
  qed
qed



text \<open>
  Claim C3, evaluated on the chain. The first run assembles and solves; the
  cache still holds the pure system, but the working matrix that the next run
  reads is the eliminated one, since the property \<^verbatim>\<open>A\<close> builds a copy only
  when there is no working matrix. After \<^verbatim>\<open>set_value_BC(pores=[0], values=2)\<close>
  the second run assembles the right-hand side \<open>[92/25, 1, 0, 0, 0]\<close>: row 1
  keeps the compensation for the old value 1, and the new value finds its
  column already zero. That system is solved by \<open>[2, 3/4, 1/2, 1/4, 0]\<close> and
  not by the interpolated field \<open>[2, 3/2, 1, 1/2, 0]\<close>; a run starting from a
  copy of the pure system assembles \<open>[16/5, 2, 0, 0, 0]\<close>.
\<close>

theorem second_run_reuses_eliminated_system:
  "run (direct_env (\<lambda>A b. chain_x)) None chain
     = (None, chain_applied\<lparr>quantity := Some chain_x\<rparr>)
   \<and> pure_A chain_applied = Some chain_A
   \<and> pure_b chain_applied = Some [0, 0, 0, 0, 0]
   \<and> get_A (chain_applied\<lparr>quantity := Some chain_x\<rparr>)
       = (Inr chain_A_bc, chain_applied\<lparr>quantity := Some chain_x\<rparr>)
   \<and> chain_A_bc \<noteq> chain_A
   \<and> apply_BCs (snd (set_value_BC [0] [2] Merge (chain_applied\<lparr>quantity := Some chain_x\<rparr>)))
       = (None, chain_applied\<lparr>quantity := Some chain_x,
                  bc_value := [Some 2, None, None, None, Some 0],
                  priv_A := Some chain_A_bc2, priv_b := Some [92 / 25, 1, 0, 0, 0]\<rparr>)
   \<and> matvec chain_A_bc2 [2, 3 / 4, 1 / 2, 1 / 4, 0] = [92 / 25, 1, 0, 0, 0]
   \<and> matvec chain_A_bc2 [2, 3 / 2, 1, 1 / 2, 0] \<noteq> [92 / 25, 1, 0, 0, 0]
   \<and> priv_b (snd (apply_BCs (snd (set_value_BC [0] [2] Merge chain))))
       = Some [16 / 5, 2, 0, 0, 0]"
proof -
  have "scipy_other (direct_env (\<lambda>A b. chain_x)) ''spsolve'' = Some (\<lambda>A b. chain_x)"
    by (simp add: direct_env_def)
  then have r1: "run (direct_env (\<lambda>A b. chain_x)) None chain
     = (None, chain_applied\<lparr>quantity := Some chain_x\<rparr>)"
    by (rule chain_run)
  have r2: "pure_A chain_applied = Some chain_A" "pure_b chain_applied = Some [0, 0, 0, 0, 0]"
    by (simp_all add: chain_applied_def chain_built_def)
  have r3: "get_A (chain_applied\<lparr>quantity := Some chain_x\<rparr>)
       = (Inr chain_A_bc, chain_applied\<lparr>quantity := Some chain_x\<rparr>)"
    by (simp add: get_A_def chain_applied_def)
  have r4: "chain_A_bc \<noteq> chain_A"
    by (simp add: chain_A_bc_def chain_A_def)
  have r5: "apply_BCs (snd (set_value_BC [0] [2] Merge (chain_applied\<lparr>quantity := Some chain_x\<rparr>)))
       = (None, chain_applied\<lparr>quantity := Some chain_x,
                  bc_value := [Some 2, None, None, None, Some 0],
                  priv_A := Some chain_A_bc2, priv_b := Some [92 / 25, 1, 0, 0, 0]\<rparr>)"
    by code_simp
  have r6: "matvec chain_A_bc2 [2, 3 / 4, 1 / 2, 1 / 4, 0] = [92 / 25, 1, 0, 0, 0]"
    by code_simp
  have r7: "matvec chain_A_bc2 [2, 3 / 2, 1, 1 / 2, 0] \<noteq> [92 / 25, 1, 0, 0, 0]"
    by code_simp
  have r8: "priv_b (snd (apply_BCs (snd (set_value_BC [0] [2] Merge chain))))
       = Some [16 / 5, 2, 0, 0, 0]"
    by code_simp
  show ?thesis
    by (intro conjI r1 r2 r3 r4 r5 r6 r7 r8)
qed

end
